theory Spec2Isabelle
  imports Complex_Main
begin

section \<open>JavaScript values held by the front end\<close>

text \<open>
  The React component \<open>App\<close> (src/frontend/src/App.js, and its latest revision with the
  search form in src/build_prod_images.sh) keeps what the HTTP API returned in its state
  and reads it with member access, optional chaining and \<open>||\<close>. The values are what
  \<open>JSON.parse\<close> yields, plus \<open>undefined\<close>, which a missing property reads as.
  A string is modelled by its UTF-8 bytes; an object by its own properties, each key once.
\<close>

datatype json =
    JUndefined
  | JNull
  | JBool bool
  | JNum real
  | JStr string
  | JArr "json list"
  | JObj "(string \<times> json) list"

datatype js_error = TypeError

text \<open>\<open>v == null\<close>: the values on which \<open>?.\<close> short-circuits and \<open>.\<close> throws.\<close>

definition nullish :: "json \<Rightarrow> bool" where
  "nullish v = (v = JUndefined \<or> v = JNull)"

text \<open>JavaScript's \<open>ToBoolean\<close> (no \<open>NaN\<close> comes out of JSON).\<close>

fun truthy :: "json \<Rightarrow> bool" where
  "truthy JUndefined = False"
| "truthy JNull = False"
| "truthy (JBool b) = b"
| "truthy (JNum x) = (x \<noteq> 0)"
| "truthy (JStr s) = (s \<noteq> [])"
| "truthy (JArr xs) = True"
| "truthy (JObj kvs) = True"

text \<open>
  \<open>v.k\<close> for a value that is neither \<open>null\<close> nor \<open>undefined\<close> and a key \<open>k\<close> of the
  telegram data (none of them is a property of a prototype): an object gives its own
  property, every other value gives \<open>undefined\<close>.
\<close>

fun get_prop :: "json \<Rightarrow> string \<Rightarrow> json" where
  "get_prop (JObj kvs) k = (case map_of kvs k of Some v \<Rightarrow> v | None \<Rightarrow> JUndefined)"
| "get_prop v k = JUndefined"

text \<open>\<open>v.k\<close>: throws a TypeError on \<open>null\<close> and \<open>undefined\<close>.\<close>

definition member :: "json \<Rightarrow> string \<Rightarrow> js_error + json" where
  "member v k = (if nullish v then Inl TypeError else Inr (get_prop v k))"

text \<open>\<open>v?.k\<close>: \<open>undefined\<close> on \<open>null\<close> and \<open>undefined\<close>.\<close>

definition opt_member :: "json \<Rightarrow> string \<Rightarrow> json" where
  "opt_member v k = (if nullish v then JUndefined else get_prop v k)"

text \<open>\<open>a || b\<close>.\<close>

definition or_else :: "json \<Rightarrow> json \<Rightarrow> json" where
  "or_else a b = (if truthy a then a else b)"

section \<open>The detail view: the prescription table\<close>

text \<open>
  The detail section is rendered for a truthy \<open>selectedTelegram\<close> only, so the first,
  plain member access cannot throw there:
  \<^verbatim>\<open>selectedTelegram.raw_data?.content?.item_group?.item_info\<close>
\<close>

definition raw_data_of :: "json \<Rightarrow> json" where
  "raw_data_of t = get_prop t ''raw_data''"

definition item_info_path :: "json \<Rightarrow> json" where
  "item_info_path t =
     opt_member (opt_member (opt_member (raw_data_of t) ''content'') ''item_group'') ''item_info''"

text \<open>The filter's callback, \<^verbatim>\<open>item => item.attribute === 'ID1'\<close>.\<close>

definition is_prescription :: "json \<Rightarrow> js_error + bool" where
  "is_prescription item =
     (case member item ''attribute'' of
        Inl e \<Rightarrow> Inl e
      | Inr a \<Rightarrow> Inr (a = JStr ''ID1''))"

text \<open>\<open>Array.prototype.filter\<close> with that callback: the first throw ends it.\<close>

fun filter_prescription :: "json list \<Rightarrow> js_error + json list" where
  "filter_prescription [] = Inr []"
| "filter_prescription (item # items) =
     (case is_prescription item of
        Inl e \<Rightarrow> Inl e
      | Inr keep \<Rightarrow>
          (case filter_prescription items of
             Inl e \<Rightarrow> Inl e
           | Inr kept \<Rightarrow> Inr (if keep then item # kept else kept)))"

text \<open>
  The map's callback: one table row per item, keyed by its index in the filtered array,
  with the cells \<open>item.name\<close>, \<open>item.quantity\<close>, \<open>item.unit_name\<close>, \<open>item.code\<close>.
\<close>

record row =
  row_key :: nat
  name_cell :: json
  quantity_cell :: json
  unit_name_cell :: json
  code_cell :: json

definition to_row :: "nat \<times> json \<Rightarrow> row" where
  "to_row p =
     \<lparr> row_key = fst p,
       name_cell = get_prop (snd p) ''name'',
       quantity_cell = get_prop (snd p) ''quantity'',
       unit_name_cell = get_prop (snd p) ''unit_name'',
       code_cell = get_prop (snd p) ''code'' \<rparr>"

definition map_rows :: "json list \<Rightarrow> row list" where
  "map_rows items = map to_row (enumerate 0 items)"

text \<open>
  \<^verbatim>\<open>item_info?.filter(...)\<close>: \<open>undefined\<close> (here \<open>None\<close>) when \<open>item_info\<close> is \<open>null\<close> or
  \<open>undefined\<close>, which skips the rest of the chain; the filtered array when it is an
  array; a TypeError when it is anything else, which has no callable \<open>filter\<close>.
\<close>

definition prescription_items :: "json \<Rightarrow> js_error + json list option" where
  "prescription_items t =
     (let info = item_info_path t in
      if nullish info then Inr None
      else (case info of
              JArr items \<Rightarrow>
                (case filter_prescription items of
                   Inl e \<Rightarrow> Inl e
                 | Inr kept \<Rightarrow> Inr (Some kept))
            | _ \<Rightarrow> Inl TypeError))"

text \<open>
  The body of the table: the rows, or the single fallback row (a cell spanning the four
  columns with the Japanese text for "no items") when the chain is falsy. An array is
  truthy, also when it is empty.
\<close>

datatype tbody = Rows "row list" | NoItemsRow

definition prescription_tbody :: "json \<Rightarrow> js_error + tbody" where
  "prescription_tbody t =
     (case prescription_items t of
        Inl e \<Rightarrow> Inl e
      | Inr None \<Rightarrow> Inr NoItemsRow
      | Inr (Some kept) \<Rightarrow> Inr (Rows (map_rows kept)))"

text \<open>The attribute test without the throw, for items that are not \<open>null\<close>.\<close>

definition has_ID1 :: "json \<Rightarrow> bool" where
  "has_ID1 item = (get_prop item ''attribute'' = JStr ''ID1'')"

section \<open>The detail view: patient, order and import information\<close>

text \<open>
  \<^verbatim>\<open>selectedTelegram.raw_data?.content?.patient_info\<close>,
  \<^verbatim>\<open>selectedTelegram.raw_data?.content?.order_info\<close> and
  \<^verbatim>\<open>selectedTelegram.raw_data?.content?.order_info?.doctor_info\<close>, the prefixes of the
  chains the cells read.
\<close>

definition patient_info_of :: "json \<Rightarrow> json" where
  "patient_info_of t = opt_member (opt_member (raw_data_of t) ''content'') ''patient_info''"

definition order_info_of :: "json \<Rightarrow> json" where
  "order_info_of t = opt_member (opt_member (raw_data_of t) ''content'') ''order_info''"

definition doctor_info_of :: "json \<Rightarrow> json" where
  "doctor_info_of t = opt_member (order_info_of t) ''doctor_info''"

text \<open>The placeholder literal \<^verbatim>\<open>'-'\<close>.\<close>

definition dash :: json where
  "dash = JStr ''-''"

text \<open>
  \<^verbatim>\<open>const formatDate = (dateStr) => {
    if (!dateStr) return "-";
    return new Date(dateStr).toLocaleString('ja-JP');
  };\<close>
  The locale's formatting of a date is a parameter, \<open>toLocaleString\<close>.
\<close>

definition formatDate :: "(json \<Rightarrow> string) \<Rightarrow> json \<Rightarrow> json" where
  "formatDate toLocaleString dateStr =
     (if \<not> truthy dateStr then JStr ''-'' else JStr (toLocaleString dateStr))"

text \<open>
  The cells of the three information groups, in the order of the source, and the value
  that \<open>JSON.stringify\<close> serialises in the last one.
\<close>

record info_groups =
  patient_id_cell :: json
  patient_name_cell :: json
  birthdate_cell :: json
  address_cell :: json
  order_number_cell :: json
  order_version_cell :: json
  doctor_id_cell :: json
  doctor_name_cell :: json
  dept_cell :: json
  created_at_cell :: json
  updated_at_cell :: json
  json_pane :: json

definition info_cells :: "(json \<Rightarrow> string) \<Rightarrow> json \<Rightarrow> info_groups" where
  "info_cells toLocaleString t =
     \<lparr> patient_id_cell = get_prop t ''patient_id'',
       patient_name_cell = get_prop t ''patient_name'',
       birthdate_cell = or_else (opt_member (patient_info_of t) ''birthdate'') dash,
       address_cell = or_else (opt_member (patient_info_of t) ''address'') dash,
       order_number_cell = or_else (opt_member (order_info_of t) ''number'') dash,
       order_version_cell = or_else (opt_member (order_info_of t) ''version'') dash,
       doctor_id_cell = or_else (opt_member (doctor_info_of t) ''d_id'') dash,
       doctor_name_cell = or_else (opt_member (doctor_info_of t) ''kanji_name'') dash,
       dept_cell = or_else (opt_member (order_info_of t) ''hakkou_dept_code'') dash,
       created_at_cell = formatDate toLocaleString (get_prop t ''created_at''),
       updated_at_cell = formatDate toLocaleString (get_prop t ''updated_at''),
       json_pane = raw_data_of t \<rparr>"

text \<open>
  The detail section: a prompt to select a telegram while \<open>selectedTelegram\<close> is falsy,
  otherwise the prescription table and the information groups. A throw in the table's
  expression ends the rendering.
\<close>

datatype detail_section =
    SelectPrompt
  | DetailContent tbody info_groups

definition render_detail :: "(json \<Rightarrow> string) \<Rightarrow> json \<Rightarrow> js_error + detail_section" where
  "render_detail toLocaleString selectedTelegram =
     (if \<not> truthy selectedTelegram then Inr SelectPrompt
      else (case prescription_tbody selectedTelegram of
              Inl e \<Rightarrow> Inl e
            | Inr body \<Rightarrow> Inr (DetailContent body (info_cells toLocaleString selectedTelegram))))"

section \<open>The list view\<close>

text \<open>
  The placeholder of the patient's name in the list, a Japanese literal of four
  characters that says "name unknown", as its UTF-8 bytes.
\<close>

definition name_unknown :: json where
  "name_unknown =
     JStr (map char_of [229, 144, 141, 231, 167, 176, 228, 184, 141, 230, 152, 142 :: nat])"

text \<open>
  One entry of the list (src/build_prod_images.sh, the \<open>telegrams.map\<close> callback): the cells
  \<^verbatim>\<open>t.patient_name || <name unknown>\<close>, \<^verbatim>\<open>t.patient_id\<close>, \<^verbatim>\<open>t.order_number\<close>,
  \<^verbatim>\<open>t.version\<close> and \<^verbatim>\<open>t.order_date || '-'\<close>. The member accesses are plain ones and throw on
  an entry that is \<open>null\<close>. The entry's key, click handler and class name are not modelled.
\<close>

record list_item =
  item_patient_name :: json
  item_patient_id :: json
  item_order_number :: json
  item_version :: json
  item_order_date :: json

definition render_list_item :: "json \<Rightarrow> js_error + list_item" where
  "render_list_item t =
     (if nullish t then Inl TypeError
      else Inr \<lparr> item_patient_name = or_else (get_prop t ''patient_name'') name_unknown,
                 item_patient_id = get_prop t ''patient_id'',
                 item_order_number = get_prop t ''order_number'',
                 item_version = get_prop t ''version'',
                 item_order_date = or_else (get_prop t ''order_date'') dash \<rparr>)"

section \<open>Searching\<close>

text \<open>
  The part of the component's state that searching and selecting touch (the chosen file
  and the two search inputs are left out), and the messages \<open>setError\<close> is given, each
  a Japanese sentence in the source.
\<close>

datatype message =
    FetchFailed
  | SearchFailed
  | UploadFailed
  | DetailFetchFailed

record app_state =
  telegrams :: "json list"
  selectedTelegram :: json
  loading :: bool
  error :: "message option"

text \<open>
  How an awaited request settles, and the two requests as functions of what is sent:
  \<^verbatim>\<open>GET /api/telegrams/search?order_number=..&version=..\<close>, whose body is a JSON array,
  and \<^verbatim>\<open>GET /api/telegrams/${id}\<close>.
\<close>

datatype 'a settled = Fulfilled 'a | Rejected

record api =
  search :: "string \<Rightarrow> string \<Rightarrow> json list settled"
  detail :: "json \<Rightarrow> json settled"

text \<open>
  \<^verbatim>\<open>const handleSelectTelegram = async (id) => {
    setLoading(true);
    setError(null);
    try {
      const res = await axios.get(`/api/telegrams/${id}`);
      setSelectedTelegram(res.data);
    } catch (err) {
      setError(<detail fetch failed>);
    } finally {
      setLoading(false);
    }
  };\<close>
  in two parts: what runs when it is called, up to the \<open>await\<close>, and what runs when the
  request has settled.
\<close>

definition handleSelectTelegram_begin :: "app_state \<Rightarrow> app_state" where
  "handleSelectTelegram_begin s = s\<lparr>loading := True, error := None\<rparr>"

definition handleSelectTelegram_settle :: "json settled \<Rightarrow> app_state \<Rightarrow> app_state" where
  "handleSelectTelegram_settle res s =
     (case res of
        Fulfilled d \<Rightarrow> s\<lparr>selectedTelegram := d, loading := False\<rparr>
      | Rejected \<Rightarrow> s\<lparr>error := Some DetailFetchFailed, loading := False\<rparr>)"

definition handleSelectTelegram :: "api \<Rightarrow> json \<Rightarrow> app_state \<Rightarrow> app_state" where
  "handleSelectTelegram a ident s =
     handleSelectTelegram_settle (detail a ident) (handleSelectTelegram_begin s)"

text \<open>
  \<^verbatim>\<open>const executeSearch = async (number, version) => {
    setLoading(true);
    setError(null);
    try {
      const res = await axios.get('/api/telegrams/search', { params: {...} });
      const searchResults = res.data;
      setTelegrams(searchResults);
      if (searchResults.length > 0) {
        handleSelectTelegram(searchResults[0].id);
      } else {
        setSelectedTelegram(null);
      }
    } catch (err) {
      setError(<search failed>);
    } finally {
      setLoading(false);
    }
  };\<close>
  The call of \<open>handleSelectTelegram\<close> is not awaited: its first part runs inside the
  \<open>try\<close>, then the \<open>finally\<close> of \<open>executeSearch\<close>, and its second part when the detail
  request has settled. \<open>searchResults[0].id\<close> throws inside the \<open>try\<close> when the first
  result is \<open>null\<close>. The result is the state once every request has settled.
\<close>

definition executeSearch :: "api \<Rightarrow> string \<Rightarrow> string \<Rightarrow> app_state \<Rightarrow> app_state" where
  "executeSearch a number version s =
     (let s1 = s\<lparr>loading := True, error := None\<rparr> in
      case search a number version of
        Rejected \<Rightarrow> s1\<lparr>error := Some SearchFailed, loading := False\<rparr>
      | Fulfilled searchResults \<Rightarrow>
          (let s2 = s1\<lparr>telegrams := searchResults\<rparr> in
           if length searchResults > 0 then
             (case member (hd searchResults) ''id'' of
                Inl e \<Rightarrow> s2\<lparr>error := Some SearchFailed, loading := False\<rparr>
              | Inr ident \<Rightarrow>
                  handleSelectTelegram_settle (detail a ident)
                    ((handleSelectTelegram_begin s2)\<lparr>loading := False\<rparr>))
           else s2\<lparr>selectedTelegram := JNull, loading := False\<rparr>))"

section \<open>The validator of the parsing core\<close>

text \<open>
  The parsing core (the Flask backend's parser) is not among the repository's sources
  under src/: only the front end that reads its output is. What follows is written from
  the specification's data model and its description of the Validator.
\<close>

text \<open>
  Modelled from the spec: \<open>patient_info\<close> of the nested parse result (the backend's record
  type is missing), "optional fields": each is an option.
\<close>

record patient_info =
  birthdate :: "string option"
  address :: "string option"

text \<open>
  Modelled from the spec: \<open>doctor_info: { id, kanji_name }\<close> (the backend's record type is
  missing); \<open>id\<close> is the field \<open>doctor_id\<close>.
\<close>

record doctor_info =
  doctor_id :: "string option"
  kanji_name :: "string option"

text \<open>
  Modelled from the spec: \<open>order_info: { number, version, doctor_info, hakkou_dept_code }\<close>
  (the backend's record type is missing); \<open>number\<close> and \<open>version\<close> are the fields
  \<open>info_number\<close> and \<open>info_version\<close>.
\<close>

record order_info =
  info_number :: "string option"
  info_version :: "string option"
  doctor_info :: doctor_info
  hakkou_dept_code :: "string option"

text \<open>
  Modelled from the spec: one item line, \<open>{ attribute, name, quantity, unit_name, code }\<close>
  (the backend's record type is missing).
\<close>

record item_line =
  attribute :: string
  name :: string
  quantity :: string
  unit_name :: string
  code :: string

text \<open>
  Modelled from the spec: the nested parse result \<open>RawData.content\<close> (the backend's record
  type is missing), with \<open>item_group.item_info\<close> as the field \<open>item_info\<close>, an ordered
  sequence of item lines.
\<close>

record content =
  patient_info :: patient_info
  order_info :: order_info
  item_info :: "item_line list"

text \<open>
  Modelled from the spec: the record the Validator is given (the backend's record type is
  missing), the top-level \<open>order_number\<close> and \<open>version\<close> beside the nested content.
\<close>

record parsed_record =
  order_number :: "string option"
  version :: "string option"
  content :: content

text \<open>
  Modelled from the spec: the segment types, "header, patient segment, order segment,
  doctor segment, item-line segments, trailer" (the backend's Schema Table is missing).
\<close>

datatype segment_type = Header | Patient | Order | Doctor | ItemLine | Trailer

text \<open>
  Modelled from the spec: the rules of the Validator that an error can list (the backend's
  validation code is missing): presence, length and digits of \<open>order_number\<close> and of
  \<open>version\<close>, the agreement of \<open>order_info.number\<close> and of \<open>order_info.version\<close> with
  them, and the non-empty attribute of every item line.
\<close>

datatype rule =
    OrderNumberPresent
  | OrderNumberLength
  | OrderNumberDigits
  | VersionPresent
  | VersionLength
  | VersionDigits
  | OrderInfoNumberAgrees
  | OrderInfoVersionAgrees
  | ItemAttributeNonEmpty

text \<open>
  Modelled from the spec: the error taxonomy of the core (the backend's exception classes
  are missing): a truncation with the segment type and byte offset, an unknown segment
  with the offending code and offset, a missing segment with its type, a
  \<open>ValidationError\<close> with the list of violated rules, and an encoding error.
\<close>

datatype parse_error =
    TruncatedInputError segment_type nat
  | UnknownSegmentError string nat
  | MissingSegmentError segment_type
  | ValidationError "rule list"
  | EncodingError

text \<open>
  Modelled from the spec: an ASCII digit, as in "exactly 8 ASCII digits" (the backend's
  validation code is missing).
\<close>

definition is_digit :: "char \<Rightarrow> bool" where
  "is_digit c = (c \<in> set ''0123456789'')"

text \<open>
  Modelled from the spec: the Validator's checks (the backend's validation code is
  missing). "\<open>order_number\<close> is present, 8 characters, all digits"; "\<open>version\<close> is present,
  2 characters, all digits"; "\<open>order_info.number\<close>/\<open>order_info.version\<close> equal the top-level
  \<open>order_number\<close>/\<open>version\<close>"; "every item line carries a non-empty \<open>attribute\<close> tag".
  Each is reported on its own; the length and the digits of an absent field are not.
\<close>

fun violated :: "parsed_record \<Rightarrow> rule \<Rightarrow> bool" where
  "violated r OrderNumberPresent = (order_number r = None)"
| "violated r OrderNumberLength =
     (case order_number r of None \<Rightarrow> False | Some n \<Rightarrow> length n \<noteq> 8)"
| "violated r OrderNumberDigits =
     (case order_number r of None \<Rightarrow> False | Some n \<Rightarrow> \<not> list_all is_digit n)"
| "violated r VersionPresent = (version r = None)"
| "violated r VersionLength =
     (case version r of None \<Rightarrow> False | Some n \<Rightarrow> length n \<noteq> 2)"
| "violated r VersionDigits =
     (case version r of None \<Rightarrow> False | Some n \<Rightarrow> \<not> list_all is_digit n)"
| "violated r OrderInfoNumberAgrees =
     (info_number (order_info (content r)) \<noteq> order_number r)"
| "violated r OrderInfoVersionAgrees =
     (info_version (order_info (content r)) \<noteq> version r)"
| "violated r ItemAttributeNonEmpty =
     list_ex (\<lambda>i. attribute i = []) (item_info (content r))"

text \<open>
  Modelled from the spec: the rules in the order the checks are listed (the backend's
  validation code is missing).
\<close>

definition all_rules :: "rule list" where
  "all_rules =
     [OrderNumberPresent, OrderNumberLength, OrderNumberDigits,
      VersionPresent, VersionLength, VersionDigits,
      OrderInfoNumberAgrees, OrderInfoVersionAgrees, ItemAttributeNonEmpty]"

text \<open>
  Modelled from the spec: the Validator (the backend's validation code is missing).
  "Output: either the validated record unchanged, or a \<open>ValidationError\<close> carrying the list
  of every violated rule (not just the first)".
\<close>

definition validator :: "parsed_record \<Rightarrow> parse_error + parsed_record" where
  "validator r =
     (case filter (violated r) all_rules of
        [] \<Rightarrow> Inr r
      | v # vs \<Rightarrow> Inl (ValidationError (v # vs)))"

text \<open>
  Modelled from the spec: the parser as the data flow "raw stream, Segmenter, Field
  Mapper, Record Builder, Validator" (the backend's parser is missing). The stages before
  the Validator, whose byte layout the specification leaves to the Schema Table, are the
  parameter \<open>build\<close>.
\<close>

definition parse ::
  "(string \<Rightarrow> parse_error + parsed_record) \<Rightarrow> string \<Rightarrow> parse_error + parsed_record" where
  "parse build stream =
     (case build stream of
        Inl e \<Rightarrow> Inl e
      | Inr r \<Rightarrow> validator r)"

text \<open>
  Modelled from the spec: the ingest boundary (the backend's route is missing). It
  "returns the parsed-and-validated record, or a classified parse failure, for the caller
  to persist or reject", and "no partial record is ever persisted": the store grows by
  the record of a successful parse only.
\<close>

definition ingest ::
  "(string \<Rightarrow> parse_error + parsed_record) \<Rightarrow> string \<Rightarrow> parsed_record list \<Rightarrow>
   (parse_error + parsed_record) \<times> parsed_record list" where
  "ingest build stream store =
     (case parse build stream of
        Inl e \<Rightarrow> (Inl e, store)
      | Inr r \<Rightarrow> (Inr r, store @ [r]))"

section \<open>Example data\<close>

text \<open>
  Two item lines, one tagged \<open>ID1\<close> and one tagged otherwise, and a telegram as the detail
  endpoint returns it, around a given value of \<open>item_info\<close>.
\<close>

definition item_A :: json where
  "item_A = JObj [(''attribute'', JStr ''ID1''), (''name'', JStr ''drug A''),
                  (''quantity'', JStr ''1''), (''unit_name'', JStr ''tab''),
                  (''code'', JStr ''00001'')]"

definition item_B :: json where
  "item_B = JObj [(''attribute'', JStr ''ID2''), (''name'', JStr ''note''),
                  (''quantity'', JStr []), (''unit_name'', JStr []),
                  (''code'', JStr ''90001'')]"

definition telegram_with :: "json \<Rightarrow> json" where
  "telegram_with info =
     JObj [(''id'', JNum 7), (''patient_id'', JStr ''0000123''),
           (''raw_data'', JObj [(''content'', JObj [(''item_group'',
              JObj [(''item_info'', info)])])])]"

text \<open>A date formatter, a server with one telegram, one with none, and two states.\<close>

definition fixed_date :: "json \<Rightarrow> string" where
  "fixed_date d = ''2025/1/1 0:00:00''"

definition summary_7 :: json where
  "summary_7 = JObj [(''id'', JNum 7), (''patient_id'', JStr ''0000123'')]"

definition api_one :: api where
  "api_one = \<lparr> search = (\<lambda>n v. Fulfilled [summary_7]),
               detail = (\<lambda>i. if i = JNum 7 then Fulfilled (telegram_with (JArr [item_A]))
                              else Rejected) \<rparr>"

definition api_none :: api where
  "api_none = \<lparr> search = (\<lambda>n v. Fulfilled []), detail = (\<lambda>i. Rejected) \<rparr>"

definition state_initial :: app_state where
  "state_initial = \<lparr> telegrams = [], selectedTelegram = JNull, loading = False, error = None \<rparr>"

definition state_selected :: app_state where
  "state_selected =
     \<lparr> telegrams = [summary_7], selectedTelegram = telegram_with (JArr [item_A]),
       loading = False, error = None \<rparr>"

text \<open>
  The record of the specification's example (order number \<open>12345678\<close>, version \<open>01\<close>, one
  item line tagged \<open>ID1\<close>), and the same with an order number of seven digits.
\<close>

definition example_record :: parsed_record where
  "example_record =
     \<lparr> order_number = Some ''12345678'',
       version = Some ''01'',
       content =
         \<lparr> patient_info = \<lparr> birthdate = None, address = None \<rparr>,
           order_info =
             \<lparr> info_number = Some ''12345678'',
               info_version = Some ''01'',
               doctor_info = \<lparr> doctor_id = None, kanji_name = None \<rparr>,
               hakkou_dept_code = None \<rparr>,
           item_info =
             [\<lparr> attribute = ''ID1'', name = ''drug A'', quantity = ''1'',
                unit_name = ''tab'', code = ''00001'' \<rparr>] \<rparr> \<rparr>"

definition seven_digit_record :: parsed_record where
  "seven_digit_record = example_record\<lparr> order_number := Some ''1234567'' \<rparr>"

section \<open>Properties of the prescription table\<close>

lemma is_prescription_defined:
  "\<not> nullish item \<Longrightarrow> is_prescription item = Inr (has_ID1 item)"
  by (simp add: is_prescription_def member_def has_ID1_def)

lemma filter_prescription_defined:
  "\<forall>item \<in> set items. \<not> nullish item \<Longrightarrow>
   filter_prescription items = Inr (filter has_ID1 items)"
  by (induction items) (simp_all add: is_prescription_defined)

lemma prescription_items_array:
  assumes "item_info_path t = JArr items" "\<forall>item \<in> set items. \<not> nullish item"
  shows "prescription_items t = Inr (Some (filter has_ID1 items))"
  using assms by (simp add: prescription_items_def nullish_def filter_prescription_defined)

lemma prescription_items_None:
  "prescription_items t = Inr None \<longleftrightarrow> nullish (item_info_path t)"
  by (cases "item_info_path t")
     (auto simp: prescription_items_def nullish_def Let_def split: sum.splits)

lemma raw_data_shown_whole:
  "opt_member (opt_member (opt_member (json_pane (info_cells f t)) ''content'') ''item_group'')
     ''item_info'' = item_info_path t"
  by (simp add: info_cells_def item_info_path_def)

lemma item_info_path_telegram_with:
  "item_info_path (telegram_with info) = info"
  by (simp add: item_info_path_def raw_data_of_def opt_member_def nullish_def telegram_with_def)

text \<open>
  C1. For a telegram whose \<open>item_info\<close> is an array of item lines (none of them \<open>null\<close>),
  the prescription-only projection that the detail view computes is exactly the item
  lines whose \<open>attribute\<close> is \<open>'ID1'\<close>, in their order; an item line with any other
  attribute is not in the projection, and \<open>raw_data.content.item_group.item_info\<close>, shown
  whole in the JSON pane of the same view, still holds every item line.
\<close>

theorem prescription_projection_exact:
  assumes "item_info_path t = JArr items"
    and "\<forall>item \<in> set items. \<not> nullish item"
  shows "\<exists>kept. prescription_items t = Inr (Some kept)
           \<and> prescription_tbody t = Inr (Rows (map_rows kept))
           \<and> kept = filter has_ID1 items
           \<and> (\<forall>item. item \<in> set kept \<longleftrightarrow>
                  item \<in> set items \<and> get_prop item ''attribute'' = JStr ''ID1'')
           \<and> (\<forall>item \<in> set items. get_prop item ''attribute'' \<noteq> JStr ''ID1'' \<longrightarrow>
                  item \<notin> set kept)
           \<and> opt_member (opt_member (opt_member (json_pane (info_cells f t)) ''content'')
                 ''item_group'') ''item_info'' = JArr items"
proof -
  have items: "prescription_items t = Inr (Some (filter has_ID1 items))"
    using assms by (rule prescription_items_array)
  have body: "prescription_tbody t = Inr (Rows (map_rows (filter has_ID1 items)))"
    by (simp add: prescription_tbody_def items)
  have stored: "opt_member (opt_member (opt_member (json_pane (info_cells f t)) ''content'')
                 ''item_group'') ''item_info'' = JArr items"
    using assms(1) by (simp add: raw_data_shown_whole)
  show ?thesis
    using items body stored by (auto simp: has_ID1_def)
qed

theorem prescription_projection_exact_witness:
  "item_info_path (telegram_with (JArr [item_A, item_B, item_A])) = JArr [item_A, item_B, item_A]
   \<and> \<not> nullish item_A \<and> \<not> nullish item_B
   \<and> prescription_items (telegram_with (JArr [item_A, item_B, item_A]))
       = Inr (Some [item_A, item_A])
   \<and> item_B \<notin> set [item_A, item_A]"
proof -
  have p: "item_info_path (telegram_with (JArr [item_A, item_B, item_A]))
             = JArr [item_A, item_B, item_A]"
    by (rule item_info_path_telegram_with)
  have n: "\<forall>item \<in> set [item_A, item_B, item_A]. \<not> nullish item"
    by (simp add: item_A_def item_B_def nullish_def)
  have f: "filter has_ID1 [item_A, item_B, item_A] = [item_A, item_A]"
    by (simp add: has_ID1_def item_A_def item_B_def)
  show ?thesis
    using prescription_projection_exact [OF p n] p n f
    by (auto simp: item_A_def item_B_def)
qed

text \<open>
  C9. In the prescription table of the detail view the fallback row ("no items") is
  rendered exactly when the optional chain down to
  \<open>raw_data.content.item_group.item_info\<close> ends in \<open>undefined\<close> or \<open>null\<close>; when
  \<open>item_info\<close> is an array with no item tagged \<open>'ID1'\<close>, the filtered and mapped array is
  empty but truthy, so the table body has no row and the fallback row is not shown.
\<close>

theorem fallback_row_iff_absent:
  "(prescription_tbody t = Inr NoItemsRow \<longleftrightarrow> nullish (item_info_path t))
   \<and> (\<forall>items. item_info_path t = JArr items \<longrightarrow> (\<forall>item \<in> set items. \<not> nullish item) \<longrightarrow>
         filter has_ID1 items = [] \<longrightarrow> prescription_tbody t = Inr (Rows []))"
proof (intro conjI allI impI)
  have "prescription_tbody t = Inr NoItemsRow \<longleftrightarrow> prescription_items t = Inr None"
    by (auto simp: prescription_tbody_def split: sum.splits option.splits)
  then show "prescription_tbody t = Inr NoItemsRow \<longleftrightarrow> nullish (item_info_path t)"
    by (simp add: prescription_items_None)
next
  fix items
  assume arr: "item_info_path t = JArr items" "\<forall>item \<in> set items. \<not> nullish item"
    and none: "filter has_ID1 items = []"
  from arr have "prescription_items t = Inr (Some (filter has_ID1 items))"
    by (rule prescription_items_array)
  then show "prescription_tbody t = Inr (Rows [])"
    by (simp add: prescription_tbody_def none map_rows_def)
qed

theorem fallback_row_iff_absent_witness:
  "nullish (item_info_path (telegram_with JNull))
   \<and> prescription_tbody (telegram_with JNull) = Inr NoItemsRow
   \<and> item_info_path (telegram_with (JArr [item_B])) = JArr [item_B]
   \<and> filter has_ID1 [item_B] = []
   \<and> prescription_tbody (telegram_with (JArr [item_B])) = Inr (Rows [])"
proof -
  have a: "nullish (item_info_path (telegram_with JNull))"
    by (simp add: item_info_path_telegram_with nullish_def)
  have p: "item_info_path (telegram_with (JArr [item_B])) = JArr [item_B]"
    by (rule item_info_path_telegram_with)
  have n: "\<forall>item \<in> set [item_B]. \<not> nullish item"
    by (simp add: item_B_def nullish_def)
  have f: "filter has_ID1 [item_B] = []"
    by (simp add: has_ID1_def item_B_def)
  show ?thesis
    using fallback_row_iff_absent [of "telegram_with JNull"]
      fallback_row_iff_absent [of "telegram_with (JArr [item_B])"] a p n f
    by blast
qed

section \<open>Properties of the placeholders\<close>

lemma or_else_dash_absent: "nullish v \<Longrightarrow> or_else v dash = JStr ''-''"
  by (auto simp: or_else_def nullish_def dash_def)

lemma or_else_dash_cases: "or_else v dash = JStr ''-'' \<or> or_else v dash = v"
  by (simp add: or_else_def dash_def)

lemma formatDate_absent: "nullish v \<Longrightarrow> formatDate f v = JStr ''-''"
  by (auto simp: formatDate_def nullish_def)

lemma formatDate_present: "truthy v \<Longrightarrow> formatDate f v = JStr (f v)"
  by (simp add: formatDate_def)

lemma render_list_item_order_date:
  "render_list_item t = Inr li \<Longrightarrow> nullish (get_prop t ''order_date'') \<Longrightarrow>
   item_order_date li = JStr ''-''"
  by (auto simp: render_list_item_def or_else_dash_absent split: if_splits)

text \<open>
  The cells written with \<^verbatim>\<open>|| '-'\<close> or \<open>formatDate\<close>: the birth date, the address, the
  number, version, doctor id, doctor name and department of the order, the two import
  dates, and the order date of a list entry. When the stored value is absent (its chain
  ends in \<open>undefined\<close> or \<open>null\<close>) the cell is \<open>'-'\<close>; each cell is \<open>'-'\<close> or the stored
  value itself; and the JSON pane is given the stored \<open>raw_data\<close>. This is a property of
  these display expressions only: the patient's id and name and the cells of the item
  table are rendered as stored, with no placeholder, and what the backend's parser puts
  into the record is outside the front end's code.
\<close>

lemma absent_fields_render_dash:
  "(nullish (opt_member (patient_info_of t) ''birthdate'') \<longrightarrow>
      birthdate_cell (info_cells f t) = JStr ''-'')
 \<and> (nullish (opt_member (patient_info_of t) ''address'') \<longrightarrow>
      address_cell (info_cells f t) = JStr ''-'')
 \<and> (nullish (opt_member (order_info_of t) ''number'') \<longrightarrow>
      order_number_cell (info_cells f t) = JStr ''-'')
 \<and> (nullish (opt_member (order_info_of t) ''version'') \<longrightarrow>
      order_version_cell (info_cells f t) = JStr ''-'')
 \<and> (nullish (opt_member (doctor_info_of t) ''d_id'') \<longrightarrow>
      doctor_id_cell (info_cells f t) = JStr ''-'')
 \<and> (nullish (opt_member (doctor_info_of t) ''kanji_name'') \<longrightarrow>
      doctor_name_cell (info_cells f t) = JStr ''-'')
 \<and> (nullish (opt_member (order_info_of t) ''hakkou_dept_code'') \<longrightarrow>
      dept_cell (info_cells f t) = JStr ''-'')
 \<and> (nullish (get_prop t ''created_at'') \<longrightarrow> created_at_cell (info_cells f t) = JStr ''-'')
 \<and> (nullish (get_prop t ''updated_at'') \<longrightarrow> updated_at_cell (info_cells f t) = JStr ''-'')
 \<and> (\<forall>li. render_list_item t = Inr li \<longrightarrow> nullish (get_prop t ''order_date'') \<longrightarrow>
        item_order_date li = JStr ''-'')
 \<and> (birthdate_cell (info_cells f t) = JStr ''-''
      \<or> birthdate_cell (info_cells f t) = opt_member (patient_info_of t) ''birthdate'')
 \<and> (address_cell (info_cells f t) = JStr ''-''
      \<or> address_cell (info_cells f t) = opt_member (patient_info_of t) ''address'')
 \<and> (order_number_cell (info_cells f t) = JStr ''-''
      \<or> order_number_cell (info_cells f t) = opt_member (order_info_of t) ''number'')
 \<and> (order_version_cell (info_cells f t) = JStr ''-''
      \<or> order_version_cell (info_cells f t) = opt_member (order_info_of t) ''version'')
 \<and> (doctor_id_cell (info_cells f t) = JStr ''-''
      \<or> doctor_id_cell (info_cells f t) = opt_member (doctor_info_of t) ''d_id'')
 \<and> (doctor_name_cell (info_cells f t) = JStr ''-''
      \<or> doctor_name_cell (info_cells f t) = opt_member (doctor_info_of t) ''kanji_name'')
 \<and> (dept_cell (info_cells f t) = JStr ''-''
      \<or> dept_cell (info_cells f t) = opt_member (order_info_of t) ''hakkou_dept_code'')
 \<and> json_pane (info_cells f t) = raw_data_of t"
  by (simp add: info_cells_def or_else_dash_absent or_else_dash_cases formatDate_absent
        render_list_item_order_date)

lemma telegram_with_null_paths:
  "patient_info_of (telegram_with JNull) = JUndefined"
  "order_info_of (telegram_with JNull) = JUndefined"
  "doctor_info_of (telegram_with JNull) = JUndefined"
  by (simp_all add: patient_info_of_def order_info_of_def doctor_info_of_def raw_data_of_def
        opt_member_def nullish_def telegram_with_def)

lemma absent_fields_render_dash_example:
  "nullish (opt_member (patient_info_of (telegram_with JNull)) ''birthdate'')
 \<and> birthdate_cell (info_cells fixed_date (telegram_with JNull)) = JStr ''-''
 \<and> nullish (opt_member (patient_info_of (telegram_with JNull)) ''address'')
 \<and> address_cell (info_cells fixed_date (telegram_with JNull)) = JStr ''-''
 \<and> nullish (opt_member (order_info_of (telegram_with JNull)) ''number'')
 \<and> order_number_cell (info_cells fixed_date (telegram_with JNull)) = JStr ''-''
 \<and> nullish (opt_member (order_info_of (telegram_with JNull)) ''version'')
 \<and> order_version_cell (info_cells fixed_date (telegram_with JNull)) = JStr ''-''
 \<and> nullish (opt_member (doctor_info_of (telegram_with JNull)) ''d_id'')
 \<and> doctor_id_cell (info_cells fixed_date (telegram_with JNull)) = JStr ''-''
 \<and> nullish (opt_member (doctor_info_of (telegram_with JNull)) ''kanji_name'')
 \<and> doctor_name_cell (info_cells fixed_date (telegram_with JNull)) = JStr ''-''
 \<and> nullish (opt_member (order_info_of (telegram_with JNull)) ''hakkou_dept_code'')
 \<and> dept_cell (info_cells fixed_date (telegram_with JNull)) = JStr ''-''
 \<and> nullish (get_prop (telegram_with JNull) ''created_at'')
 \<and> created_at_cell (info_cells fixed_date (telegram_with JNull)) = JStr ''-''
 \<and> nullish (get_prop (telegram_with JNull) ''updated_at'')
 \<and> updated_at_cell (info_cells fixed_date (telegram_with JNull)) = JStr ''-''
 \<and> nullish (get_prop (telegram_with JNull) ''order_date'')
 \<and> (\<exists>li. render_list_item (telegram_with JNull) = Inr li \<and> item_order_date li = JStr ''-'')"
proof -
  have a: "nullish (opt_member JUndefined k)" for k
    by (simp add: opt_member_def nullish_def)
  have b: "nullish (get_prop (telegram_with JNull) ''created_at'')"
    "nullish (get_prop (telegram_with JNull) ''updated_at'')"
    "nullish (get_prop (telegram_with JNull) ''order_date'')"
    by (simp_all add: telegram_with_def nullish_def)
  have c: "\<exists>li. render_list_item (telegram_with JNull) = Inr li"
    by (simp add: render_list_item_def telegram_with_def nullish_def)
  show ?thesis
    using absent_fields_render_dash [of "telegram_with JNull" fixed_date] a b c
    by (auto simp: telegram_with_null_paths)
qed

text \<open>
  The list's cell for the patient's name has a placeholder of its own, and a stored value
  that is truthy is shown as it is.
\<close>

lemma render_list_item_patient_name:
  "render_list_item t = Inr li \<Longrightarrow> nullish (get_prop t ''patient_name'') \<Longrightarrow>
   item_patient_name li = name_unknown"
  by (auto simp: render_list_item_def or_else_def nullish_def split: if_splits)

lemma or_else_present: "truthy v \<Longrightarrow> or_else v d = v"
  by (simp add: or_else_def)

section \<open>Properties of searching\<close>

lemma executeSearch_empty:
  "search a num ver = Fulfilled [] \<Longrightarrow>
   executeSearch a num ver s =
     s\<lparr>telegrams := [], selectedTelegram := JNull, loading := False, error := None\<rparr>"
  by (simp add: executeSearch_def)

lemma executeSearch_nonempty:
  assumes "search a num ver = Fulfilled (first # others)" "\<not> nullish first"
  shows "executeSearch a num ver s =
           handleSelectTelegram a (get_prop first ''id'') (s\<lparr>telegrams := first # others\<rparr>)"
  using assms
  by (simp add: executeSearch_def member_def handleSelectTelegram_def
        handleSelectTelegram_begin_def handleSelectTelegram_settle_def split: settled.splits)

lemma handleSelectTelegram_fulfilled:
  "detail a i = Fulfilled d \<Longrightarrow> selectedTelegram (handleSelectTelegram a i s) = d"
  by (simp add: handleSelectTelegram_def handleSelectTelegram_settle_def)

text \<open>
  C10. For a search call whose request is fulfilled with a list of results: the telegram
  list is replaced by the results; if the list is not empty (and its first entry is a
  telegram, not \<open>null\<close>), the first result is selected as a click on its list entry would
  select it: its detail is requested by its \<open>id\<close>, and the detail that request is fulfilled
  with becomes the selected telegram; if the list is empty, the selected telegram is set
  to \<open>null\<close>.
\<close>

theorem executeSearch_selects_first:
  assumes "search a num ver = Fulfilled results"
  shows "telegrams (executeSearch a num ver s) = results
   \<and> (results = [] \<longrightarrow> selectedTelegram (executeSearch a num ver s) = JNull)
   \<and> (results \<noteq> [] \<and> \<not> nullish (hd results) \<longrightarrow>
        executeSearch a num ver s =
          handleSelectTelegram a (get_prop (hd results) ''id'') (s\<lparr>telegrams := results\<rparr>)
        \<and> (\<forall>d. detail a (get_prop (hd results) ''id'') = Fulfilled d \<longrightarrow>
               selectedTelegram (executeSearch a num ver s) = d))"
proof (cases results)
  case Nil
  with assms show ?thesis by (simp add: executeSearch_empty)
next
  case (Cons first others)
  have tel: "telegrams (executeSearch a num ver s) = results"
    using assms Cons
    by (auto simp: executeSearch_def Let_def handleSelectTelegram_begin_def
          handleSelectTelegram_settle_def split: sum.splits settled.splits)
  have sel: "executeSearch a num ver s =
          handleSelectTelegram a (get_prop first ''id'') (s\<lparr>telegrams := results\<rparr>)"
    if "\<not> nullish first"
    using assms Cons that executeSearch_nonempty [of a num ver first others s] by simp
  show ?thesis
    using tel sel Cons by (simp add: handleSelectTelegram_fulfilled)
qed

theorem executeSearch_selects_first_witness:
  "search api_one ''12345678'' ''01'' = Fulfilled [summary_7]
   \<and> \<not> nullish summary_7
   \<and> detail api_one (get_prop summary_7 ''id'') = Fulfilled (telegram_with (JArr [item_A]))
   \<and> telegrams (executeSearch api_one ''12345678'' ''01'' state_initial) = [summary_7]
   \<and> selectedTelegram (executeSearch api_one ''12345678'' ''01'' state_initial)
       = telegram_with (JArr [item_A])
   \<and> search api_none ''12345678'' ''02'' = Fulfilled []
   \<and> selectedTelegram state_selected \<noteq> JNull
   \<and> selectedTelegram (executeSearch api_none ''12345678'' ''02'' state_selected) = JNull"
proof -
  have one: "search api_one ''12345678'' ''01'' = Fulfilled [summary_7]"
    by (simp add: api_one_def)
  have none: "search api_none ''12345678'' ''02'' = Fulfilled []"
    by (simp add: api_none_def)
  have first: "\<not> nullish summary_7"
    by (simp add: summary_7_def nullish_def)
  have det: "detail api_one (get_prop summary_7 ''id'') = Fulfilled (telegram_with (JArr [item_A]))"
    by (simp add: api_one_def summary_7_def)
  have old: "selectedTelegram state_selected \<noteq> JNull"
    by (simp add: state_selected_def telegram_with_def)
  show ?thesis
    using executeSearch_selects_first [OF one, of state_initial]
      executeSearch_selects_first [OF none, of state_selected] one none first det old
    by (simp add: handleSelectTelegram_def handleSelectTelegram_begin_def
          handleSelectTelegram_settle_def)
qed

section \<open>Properties of the validator\<close>

lemma all_rules_complete: "rule \<in> set all_rules"
  by (cases rule) (simp_all add: all_rules_def)

lemma validator_accepts:
  "validator r = Inr r' \<longleftrightarrow> r' = r \<and> (\<forall>rule. \<not> violated r rule)"
proof -
  have "filter (violated r) all_rules = [] \<longleftrightarrow> (\<forall>rule. \<not> violated r rule)"
    using all_rules_complete by (auto simp: filter_empty_conv)
  then show ?thesis
    by (auto simp: validator_def split: list.splits)
qed

lemma validator_rejects:
  "validator r = Inl e \<longleftrightarrow>
     e = ValidationError (filter (violated r) all_rules) \<and> (\<exists>rule. violated r rule)"
proof -
  have "filter (violated r) all_rules \<noteq> [] \<longleftrightarrow> (\<exists>rule. violated r rule)"
    using all_rules_complete by (auto simp: filter_empty_conv)
  then show ?thesis
    by (auto simp: validator_def split: list.splits)
qed

lemma validator_rejects_violation:
  "violated r rule \<Longrightarrow> validator r = Inl (ValidationError (filter (violated r) all_rules))"
  using validator_rejects [of r] by blast

lemma set_violations: "rule \<in> set (filter (violated r) all_rules) \<longleftrightarrow> violated r rule"
  by (simp add: all_rules_complete)

lemma parse_accepts:
  "parse build stream = Inr r \<Longrightarrow> build stream = Inr r \<and> (\<forall>rule. \<not> violated r rule)"
  by (auto simp: parse_def validator_accepts split: sum.splits)

lemma validator_example_record: "validator example_record = Inr example_record"
  by (simp add: validator_def all_rules_def example_record_def is_digit_def)

lemma validator_seven_digit_record:
  "validator seven_digit_record = Inl (ValidationError [OrderNumberLength, OrderInfoNumberAgrees])"
  by (simp add: validator_def all_rules_def seven_digit_record_def example_record_def
        is_digit_def)

text \<open>
  C2. For every input stream the parser accepts, the resulting record's \<open>order_number\<close>
  is present, has length 8 and consists of the digits \<open>0\<close> to \<open>9\<close> only, and its \<open>version\<close>
  is present, has length 2 and consists of digits only. The stages before the Validator
  are arbitrary.
\<close>

theorem parsed_order_number_and_version_digits:
  assumes "parse build stream = Inr r"
  shows "(\<exists>n. order_number r = Some n \<and> length n = 8 \<and> (\<forall>c \<in> set n. c \<in> set ''0123456789''))
       \<and> (\<exists>v. version r = Some v \<and> length v = 2 \<and> (\<forall>c \<in> set v. c \<in> set ''0123456789''))"
proof -
  have ok: "\<not> violated r rule" for rule
    using parse_accepts [OF assms] by simp
  obtain n where n: "order_number r = Some n"
    using ok [of OrderNumberPresent] by auto
  obtain v where v: "version r = Some v"
    using ok [of VersionPresent] by auto
  have "length n = 8" "list_all is_digit n"
    using ok [of OrderNumberLength] ok [of OrderNumberDigits] n by simp_all
  moreover have "length v = 2" "list_all is_digit v"
    using ok [of VersionLength] ok [of VersionDigits] v by simp_all
  ultimately show ?thesis
    using n v by (simp add: list_all_iff is_digit_def)
qed

theorem parsed_order_number_and_version_digits_witness:
  "parse (\<lambda>stream. Inr example_record) ''telegram'' = Inr example_record
   \<and> order_number example_record = Some ''12345678''
   \<and> version example_record = Some ''01''
   \<and> length ''12345678'' = 8 \<and> length ''01'' = 2"
proof -
  have p: "parse (\<lambda>stream. Inr example_record) ''telegram'' = Inr example_record"
    by (simp add: parse_def validator_example_record)
  show ?thesis
    using parsed_order_number_and_version_digits [OF p] p
    by (simp add: example_record_def)
qed

text \<open>
  C4. In every record the Validator lets through, \<open>order_info.number\<close> and
  \<open>order_info.version\<close> equal the top-level \<open>order_number\<close> and \<open>version\<close>; the Validator
  checks this: a record in which one of the two pairs differs is rejected with a
  \<open>ValidationError\<close> that lists the rule of that pair.
\<close>

theorem validated_order_info_agrees:
  "(validator r = Inr r' \<longrightarrow>
      r' = r
      \<and> info_number (order_info (content r')) = order_number r'
      \<and> info_version (order_info (content r')) = version r')
   \<and> (info_number (order_info (content r)) \<noteq> order_number r \<longrightarrow>
        (\<exists>vs. validator r = Inl (ValidationError vs) \<and> OrderInfoNumberAgrees \<in> set vs))
   \<and> (info_version (order_info (content r)) \<noteq> version r \<longrightarrow>
        (\<exists>vs. validator r = Inl (ValidationError vs) \<and> OrderInfoVersionAgrees \<in> set vs))"
proof (intro conjI impI)
  assume a: "validator r = Inr r'"
  then have ok: "\<not> violated r rule" for rule
    by (simp add: validator_accepts)
  show "r' = r" using a by (simp add: validator_accepts)
  then show "info_number (order_info (content r')) = order_number r'"
    "info_version (order_info (content r')) = version r'"
    using ok [of OrderInfoNumberAgrees] ok [of OrderInfoVersionAgrees] by simp_all
next
  assume "info_number (order_info (content r)) \<noteq> order_number r"
  then have v: "violated r OrderInfoNumberAgrees" by simp
  then have "validator r = Inl (ValidationError (filter (violated r) all_rules))"
    by (rule validator_rejects_violation)
  with v show "\<exists>vs. validator r = Inl (ValidationError vs) \<and> OrderInfoNumberAgrees \<in> set vs"
    using set_violations by blast
next
  assume "info_version (order_info (content r)) \<noteq> version r"
  then have v: "violated r OrderInfoVersionAgrees" by simp
  then have "validator r = Inl (ValidationError (filter (violated r) all_rules))"
    by (rule validator_rejects_violation)
  with v show "\<exists>vs. validator r = Inl (ValidationError vs) \<and> OrderInfoVersionAgrees \<in> set vs"
    using set_violations by blast
qed

theorem validated_order_info_agrees_witness:
  "validator example_record = Inr example_record
   \<and> info_number (order_info (content example_record)) = order_number example_record
   \<and> info_version (order_info (content example_record)) = version example_record
   \<and> info_number (order_info (content seven_digit_record)) \<noteq> order_number seven_digit_record
   \<and> (\<exists>vs. validator seven_digit_record = Inl (ValidationError vs)
          \<and> OrderInfoNumberAgrees \<in> set vs)
   \<and> info_version (order_info (content (example_record\<lparr>version := Some ''02''\<rparr>)))
        \<noteq> version (example_record\<lparr>version := Some ''02''\<rparr>)
   \<and> (\<exists>vs. validator (example_record\<lparr>version := Some ''02''\<rparr>) = Inl (ValidationError vs)
          \<and> OrderInfoVersionAgrees \<in> set vs)"
proof -
  have d: "info_number (order_info (content seven_digit_record)) \<noteq> order_number seven_digit_record"
    by (simp add: seven_digit_record_def example_record_def)
  have e: "info_version (order_info (content (example_record\<lparr>version := Some ''02''\<rparr>)))
        \<noteq> version (example_record\<lparr>version := Some ''02''\<rparr>)"
    by (simp add: example_record_def)
  show ?thesis
    using validated_order_info_agrees [of example_record example_record]
      validated_order_info_agrees [of seven_digit_record]
      validated_order_info_agrees [of "example_record\<lparr>version := Some ''02''\<rparr>"]
      validator_example_record d e
    by blast
qed

text \<open>
  C5. The Validator either returns the record it was given, unchanged, or raises one
  \<open>ValidationError\<close> whose list holds every violated rule, each once, and no other rule.
  In particular a record whose order number has seven characters is rejected with a
  \<open>ValidationError\<close> that lists the order-number-length rule, and ingesting a stream that
  builds to such a record leaves the store of persisted records as it was.
\<close>

theorem validator_unchanged_or_all_violations:
  "((validator r = Inr r \<and> (\<forall>rule. \<not> violated r rule))
    \<or> (\<exists>vs. validator r = Inl (ValidationError vs) \<and> vs \<noteq> [] \<and> distinct vs
           \<and> (\<forall>rule. rule \<in> set vs \<longleftrightarrow> violated r rule)))
   \<and> (\<forall>n. order_number r = Some n \<longrightarrow> length n = 7 \<longrightarrow>
         (\<exists>vs. validator r = Inl (ValidationError vs) \<and> OrderNumberLength \<in> set vs
            \<and> (\<forall>build stream store. build stream = Inr r \<longrightarrow>
                  ingest build stream store = (Inl (ValidationError vs), store))))"
proof (intro conjI allI impI)
  show "(validator r = Inr r \<and> (\<forall>rule. \<not> violated r rule))
    \<or> (\<exists>vs. validator r = Inl (ValidationError vs) \<and> vs \<noteq> [] \<and> distinct vs
           \<and> (\<forall>rule. rule \<in> set vs \<longleftrightarrow> violated r rule))"
  proof (cases "\<exists>rule. violated r rule")
    case False
    then show ?thesis by (simp add: validator_accepts)
  next
    case True
    then have "validator r = Inl (ValidationError (filter (violated r) all_rules))"
      by (simp add: validator_rejects)
    moreover have "filter (violated r) all_rules \<noteq> []"
      using True all_rules_complete by (auto simp: filter_empty_conv)
    moreover have "distinct (filter (violated r) all_rules)"
      by (simp add: all_rules_def)
    ultimately show ?thesis
      using set_violations by blast
  qed
next
  fix n
  assume n: "order_number r = Some n" "length n = 7"
  then have v: "violated r OrderNumberLength" by simp
  then have rej: "validator r = Inl (ValidationError (filter (violated r) all_rules))"
    by (rule validator_rejects_violation)
  have "ingest build stream store = (Inl (ValidationError (filter (violated r) all_rules)), store)"
    if "build stream = Inr r" for build stream store
    using that rej by (simp add: ingest_def parse_def)
  with rej v show "\<exists>vs. validator r = Inl (ValidationError vs) \<and> OrderNumberLength \<in> set vs
            \<and> (\<forall>build stream store. build stream = Inr r \<longrightarrow>
                  ingest build stream store = (Inl (ValidationError vs), store))"
    using set_violations by blast
qed

theorem validator_unchanged_or_all_violations_witness:
  "validator example_record = Inr example_record
   \<and> order_number seven_digit_record = Some ''1234567''
   \<and> length ''1234567'' = 7
   \<and> validator seven_digit_record
       = Inl (ValidationError [OrderNumberLength, OrderInfoNumberAgrees])
   \<and> ingest (\<lambda>stream. Inr seven_digit_record) ''telegram'' [example_record]
       = (Inl (ValidationError [OrderNumberLength, OrderInfoNumberAgrees]), [example_record])"
proof -
  have n: "order_number seven_digit_record = Some ''1234567''"
    by (simp add: seven_digit_record_def)
  have b: "(\<lambda>stream. Inr seven_digit_record) ''telegram'' = Inr seven_digit_record"
    by simp
  show ?thesis
    using validator_unchanged_or_all_violations [of seven_digit_record]
      validator_unchanged_or_all_violations [of example_record]
      n b validator_example_record validator_seven_digit_record
    by (auto simp: ingest_def parse_def)
qed

end
